theory Spec2Isabelle
  imports Complex_Main "HOL-Library.Char_ord" "HOL-Library.List_Lexorder" "HOL-Library.Multiset"
begin

section \<open>JavaScript values used by the crawler\<close>

text \<open>
  The model follows \<^verbatim>\<open>scripts/policy-position-crawler.js\<close>, class
  \<^verbatim>\<open>PolicyPositionCrawler\<close>. A JavaScript string is a \<^typ>\<open>string\<close>: a list
  of code units below 256 (the Latin-1 range), so \<^const>\<open>length\<close> is \<^verbatim>\<open>.length\<close>.
  A JavaScript number that carries a confidence is a \<^typ>\<open>rat\<close>: the source computes
  with doubles, the model with the exact value of the same expression. The only
  comparison of a confidence with a constant in the source is \<^verbatim>\<open>> 0.2\<close>, and the
  values compared are \<^verbatim>\<open>0.1\<close> or at least \<^verbatim>\<open>0.4\<close>, far from a rounding error.
  An exception is a value of \<open>jsError\<close>; a function that can throw returns
  \<open>jsError + 'a\<close>, \<^const>\<open>Inl\<close> for the exception.
\<close>

datatype jsError =
    TypeError string
  | Error string

fun message :: "jsError \<Rightarrow> string" where
  "message (TypeError m) = m"
| "message (Error m) = m"

text \<open>\<^verbatim>\<open>String.prototype.toLowerCase\<close> on code units below 256: the letters A-Z and
  the Latin-1 capitals 192-222 (215, the multiplication sign, apart) move up by 32.\<close>

definition toLowerChar :: "char \<Rightarrow> char" where
  "toLowerChar c =
     (let n = (of_char c :: nat) in
      if (65 \<le> n \<and> n \<le> 90) \<or> (192 \<le> n \<and> n \<le> 222 \<and> n \<noteq> 215)
      then char_of (n + 32) else c)"

definition toLowerCase :: "string \<Rightarrow> string" where
  "toLowerCase s = map toLowerChar s"

text \<open>White space as \<^verbatim>\<open>String.prototype.trim\<close> sees it, below 256: tab, line feed,
  vertical tab, form feed, carriage return, space and the no-break space.\<close>

definition isWhiteSpace :: "char \<Rightarrow> bool" where
  "isWhiteSpace c =
     (let n = (of_char c :: nat) in (9 \<le> n \<and> n \<le> 13) \<or> n = 32 \<or> n = 160)"

definition trim :: "string \<Rightarrow> string" where
  "trim s = rev (dropWhile isWhiteSpace (rev (dropWhile isWhiteSpace s)))"

fun startsWith :: "string \<Rightarrow> string \<Rightarrow> bool" where
  "startsWith s [] = True"
| "startsWith [] (p # ps) = False"
| "startsWith (c # cs) (p # ps) = (c = p \<and> startsWith cs ps)"

text \<open>\<^verbatim>\<open>s.includes(needle)\<close>: the needle occurs in \<open>s\<close> as a contiguous run.\<close>

fun includesStr :: "string \<Rightarrow> string \<Rightarrow> bool" where
  "includesStr [] needle = (needle = [])"
| "includesStr (c # cs) needle = (startsWith (c # cs) needle \<or> includesStr cs needle)"

text \<open>\<^verbatim>\<open>xs.join(sep)\<close>.\<close>

fun join :: "string \<Rightarrow> string list \<Rightarrow> string" where
  "join sep [] = []"
| "join sep [x] = x"
| "join sep (x # y # ys) = x @ sep @ join sep (y # ys)"

text \<open>\<^verbatim>\<open>text.split(/[.!?]+/)\<close>: the text is cut at every maximal run of the three
  sentence marks; a run at the start or at the end leaves an empty piece there, and a
  text without a mark is one piece. \<open>cur\<close> is the piece read so far.\<close>

definition isSentenceMark :: "char \<Rightarrow> bool" where
  "isSentenceMark c = (c = CHR ''.'' \<or> c = CHR ''!'' \<or> c = CHR ''?'')"

function splitFrom :: "string \<Rightarrow> string \<Rightarrow> string list" where
  "splitFrom cur [] = [cur]"
| "splitFrom cur (c # cs) =
     (if isSentenceMark c then cur # splitFrom [] (dropWhile isSentenceMark cs)
      else splitFrom (cur @ [c]) cs)"
  by pat_completeness auto
termination
  by (relation "measure (\<lambda>(cur, rest). length rest)")
     (auto simp: less_Suc_eq_le length_dropWhile_le)

definition splitSentences :: "string \<Rightarrow> string list" where
  "splitSentences s = splitFrom [] s"

text \<open>\<^verbatim>\<open>text.split(/[.!?]+/).filter(s => s.trim().length > 20)\<close>, the first line of
  both \<^verbatim>\<open>extractKeyPhrases\<close> and \<^verbatim>\<open>extractPositionSummary\<close>.\<close>

definition longSentences :: "string \<Rightarrow> string list" where
  "longSentences s = filter (\<lambda>x. 20 < length (trim x)) (splitSentences s)"

text \<open>\<^verbatim>\<open>xs.some(p)\<close> and \<^verbatim>\<open>xs.filter(p).length\<close>.\<close>

definition some :: "('a \<Rightarrow> bool) \<Rightarrow> 'a list \<Rightarrow> bool" where
  "some p xs = list_ex p xs"

definition countHits :: "string \<Rightarrow> string list \<Rightarrow> nat" where
  "countHits lowerText indicators = length (filter (\<lambda>i. includesStr lowerText i) indicators)"

text \<open>\<^verbatim>\<open>xs.forEach(f)\<close> where the callback can throw: the first exception ends the
  loop and leaves the function.\<close>

fun forEachE :: "('a \<Rightarrow> 's \<Rightarrow> jsError + 's) \<Rightarrow> 'a list \<Rightarrow> 's \<Rightarrow> jsError + 's" where
  "forEachE f [] s = Inr s"
| "forEachE f (x # xs) s = (case f x s of Inl e \<Rightarrow> Inl e | Inr s' \<Rightarrow> forEachE f xs s')"


section \<open>Data model\<close>

text \<open>Rows of the tables \<^verbatim>\<open>politicians\<close>, \<^verbatim>\<open>policy_topics\<close>, \<^verbatim>\<open>topic_aliases\<close>,
  \<^verbatim>\<open>politician_positions\<close> and \<^verbatim>\<open>crawl_log\<close> (\<^verbatim>\<open>initializeEnhancedSchema\<close>), and the
  objects the crawler passes around. A column that can be \<^verbatim>\<open>NULL\<close> is an option.
  Times are integers: \<open>crawled_at\<close> is in seconds (the resolution of
  \<^verbatim>\<open>CURRENT_TIMESTAMP\<close>), the clock \<^verbatim>\<open>Date.now()\<close> in milliseconds.\<close>

record politician =
  pol_id :: string
  pol_name :: string
  party :: string
  state :: string
  chamber :: string
  website :: "string option"

record topicRow =
  row_id :: nat
  row_canonical_name :: string
  row_display_name :: string
  row_description :: string

record aliasRow =
  alias_topic_id :: nat
  alias_text :: string
  alias_confidence_score :: rat

text \<open>A topic as \<^verbatim>\<open>identifyTopics\<close> returns it:
  \<^verbatim>\<open>{id, canonical_name, display_name, confidence}\<close>.\<close>

record topic =
  topic_ident :: nat
  canonical_name :: string
  display_name :: string
  topic_confidence :: rat

text \<open>A content section as \<^verbatim>\<open>findContentSections\<close> builds it:
  \<^verbatim>\<open>{selector, title, text, isKeySection, hasStructuredContent}\<close>.\<close>

record contentSection =
  sec_selector :: string
  sec_title :: string
  sec_text :: string
  sec_isKeySection :: bool
  sec_hasStructuredContent :: bool

text \<open>The result of \<^verbatim>\<open>analyzePosition\<close>:
  \<^verbatim>\<open>{position, confidence, strength, supportScore, opposeScore, keyPhrases}\<close>.\<close>

record analysis =
  position :: string
  confidence :: rat
  analysis_strength :: string
  supportScore :: nat
  opposeScore :: nat
  keyPhrases :: "string list"

text \<open>A position as \<^verbatim>\<open>extractPolicyPositions\<close> builds it, and a stored row of
  \<^verbatim>\<open>politician_positions\<close>: the same columns with the row id and the politician.\<close>

record policyPosition =
  topic_id :: nat
  position_summary :: string
  position_details :: string
  is_key_issue :: bool
  source_url :: string
  source_section :: string
  confidence_score :: rat
  stance :: string
  strength :: string
  key_phrases :: string

record positionRow = policyPosition +
  position_row_id :: nat
  politician_id :: string

record logRow =
  log_row_id :: nat
  log_politician_id :: string
  website_url :: string
  crawl_status :: string
  positions_found :: nat
  error_message :: "string option"
  crawl_duration_ms :: int
  crawled_at :: int

record database =
  politicians :: "politician list"
  policy_topics :: "topicRow list"
  topic_aliases :: "aliasRow list"
  politician_positions :: "positionRow list"
  politician_positions_seq :: nat
  crawl_log :: "logRow list"
  crawl_log_seq :: nat

text \<open>The crawler object \<^verbatim>\<open>this\<close>. The constructor assigns \<^verbatim>\<open>db\<close>,
  \<^verbatim>\<open>requestDelay\<close>, \<^verbatim>\<open>processedCount\<close>, \<^verbatim>\<open>errorsCount\<close> and \<^verbatim>\<open>maxRetries\<close>.
  \<^verbatim>\<open>extractKeyPhrases\<close> and \<^verbatim>\<open>extractPositionSummary\<close> also read
  \<^verbatim>\<open>this.coreTopics\<close>, an object from topic names to keyword arrays; no line of the
  class assigns it (\<^verbatim>\<open>initializeTopicMappings\<close> binds a local constant of that name),
  so on a constructed crawler it is \<^verbatim>\<open>undefined\<close>, here \<^const>\<open>None\<close>.\<close>

record crawler =
  db :: database
  coreTopics :: "(string \<Rightarrow> string list option) option"
  requestDelay :: nat
  processedCount :: nat
  errorsCount :: nat
  maxRetries :: nat

definition constructor :: "database \<Rightarrow> crawler" where
  "constructor d =
     \<lparr>db = d, coreTopics = None, requestDelay = 2000, processedCount = 0,
      errorsCount = 0, maxRetries = 3\<rparr>"

text \<open>The message of the \<^verbatim>\<open>TypeError\<close> V8 raises for \<^verbatim>\<open>undefined[key]\<close> and
  \<^verbatim>\<open>undefined.key\<close>.\<close>

definition undefinedRead :: "string \<Rightarrow> string" where
  "undefinedRead key =
     ''Cannot read properties of undefined (reading '' @ [CHR 0x27] @ key @ [CHR 0x27] @ '')''"


section \<open>Stance analyzer\<close>

text \<open>\<^verbatim>\<open>getTopicIndicators(topic)\<close> is \<^verbatim>\<open>indicators[topic.toLowerCase()] || null\<close> on
  an object literal with five keys. The two lower-case names every object inherits,
  \<^verbatim>\<open>constructor\<close> and \<^verbatim>\<open>__proto__\<close>, give a truthy value without the fields
  \<^verbatim>\<open>support\<close> and \<^verbatim>\<open>oppose\<close>: \<open>Inherited\<close>.\<close>

datatype topicIndicators =
    Indicators (support: "string list") (oppose: "string list")
  | Inherited
  | Null

definition getTopicIndicators :: "string \<Rightarrow> topicIndicators" where
  "getTopicIndicators topic =
     (let k = toLowerCase topic in
      if k = ''healthcare'' then
        Indicators [''expand medicare'', ''public option'', ''affordable healthcare'',
                    ''protect aca'', ''universal healthcare'']
                   [''repeal obamacare'', ''privatize medicare'', ''cut medicaid'',
                    ''block healthcare'']
      else if k = ''immigration'' then
        Indicators [''path to citizenship'', ''comprehensive reform'', ''protect dreamers'',
                    ''family reunification'']
                   [''build wall'', ''mass deportation'', ''close borders'', ''end immigration'']
      else if k = ''economy'' then
        Indicators [''create jobs'', ''raise minimum wage'', ''invest in infrastructure'',
                    ''support small business'']
                   [''cut taxes for wealthy'', ''reduce regulations'', ''austerity measures'']
      else if k = ''environment'' then
        Indicators [''combat climate change'', ''clean energy'', ''paris agreement'',
                    ''green new deal'']
                   [''drill for oil'', ''coal industry'', ''climate denial'', ''deregulation'']
      else if k = ''education'' then
        Indicators [''fund public schools'', ''affordable college'', ''support teachers'',
                    ''increase education'']
                   [''school vouchers'', ''privatize education'', ''cut education funding'']
      else if k = ''constructor'' \<or> k = ''__proto__'' then Inherited
      else Null)"

definition supportIndicators :: "string list" where
  "supportIndicators =
     [''support'', ''back'', ''endorse'', ''champion'', ''advocate'',
      ''believe in'', ''committed to'', ''will fight for'', ''dedicated to'',
      ''promote'', ''expand'', ''strengthen'', ''increase'', ''improve'',
      ''invest in'', ''fund'', ''prioritize'', ''defend'', ''protect'',
      ''yes on'', ''vote for'', ''in favor of'', ''agree with'']"

definition opposeIndicators :: "string list" where
  "opposeIndicators =
     [''oppose'', ''against'', ''reject'', ''block'', ''stop'', ''prevent'',
      ''cut'', ''reduce'', ''eliminate'', ''repeal'', ''defund'',
      ''no on'', ''vote against'', ''disagree with'', ''resist'']"

definition strongIndicators :: "string list" where
  "strongIndicators =
     [''strongly'', ''firmly'', ''absolutely'', ''completely'', ''fully'',
      ''always'', ''never'', ''must'', ''will'', ''committed'', ''dedicated'',
      ''priority'', ''essential'', ''critical'', ''vital'', ''fundamental'']"

text \<open>The three counters of \<^verbatim>\<open>analyzePosition\<close> once the topic's own lists are
  added (\<^verbatim>\<open>supportScore\<close>, \<^verbatim>\<open>opposeScore\<close>, \<^verbatim>\<open>strengthScore\<close>).\<close>

definition supportScoreOf :: "string \<Rightarrow> string \<Rightarrow> nat" where
  "supportScoreOf txt topic =
     countHits (toLowerCase txt) supportIndicators +
     (case getTopicIndicators topic of
        Indicators supp opp \<Rightarrow> countHits (toLowerCase txt) supp
      | _ \<Rightarrow> 0)"

definition opposeScoreOf :: "string \<Rightarrow> string \<Rightarrow> nat" where
  "opposeScoreOf txt topic =
     countHits (toLowerCase txt) opposeIndicators +
     (case getTopicIndicators topic of
        Indicators supp opp \<Rightarrow> countHits (toLowerCase txt) opp
      | _ \<Rightarrow> 0)"

definition strengthScoreOf :: "string \<Rightarrow> nat" where
  "strengthScoreOf txt = countHits (toLowerCase txt) strongIndicators"

text \<open>The \<^verbatim>\<open>if\<close> chain of \<^verbatim>\<open>analyzePosition\<close> that sets \<^verbatim>\<open>position\<close> and
  \<^verbatim>\<open>confidence\<close> from the three counters.\<close>

definition decidePosition :: "nat \<Rightarrow> nat \<Rightarrow> nat \<Rightarrow> string \<times> rat" where
  "decidePosition supportS opposeS strengthS =
     (if supportS > opposeS then
        (''support'', min (9/10) (3/10 + of_nat supportS * (15/100) + of_nat strengthS * (1/10)))
      else if opposeS > supportS then
        (''oppose'', min (9/10) (3/10 + of_nat opposeS * (15/100) + of_nat strengthS * (1/10)))
      else if supportS > 0 \<or> opposeS > 0 then
        (''mixed'', min (7/10) (2/10 + of_nat (supportS + opposeS) * (1/10)))
      else (''neutral'', 1/10))"

text \<open>\<^verbatim>\<open>extractKeyPhrases(text, topic, position)\<close>. The callback of \<^verbatim>\<open>forEach\<close>
  first evaluates \<^verbatim>\<open>this.coreTopics[topic]?.some(...)\<close>: the optional chain guards the
  value found under \<^verbatim>\<open>topic\<close>, not \<^verbatim>\<open>this.coreTopics\<close> itself, so with
  \<^verbatim>\<open>coreTopics\<close> undefined the read throws.\<close>

definition keyPhraseStep ::
  "crawler \<Rightarrow> string \<Rightarrow> string list \<Rightarrow> string \<Rightarrow> string list \<Rightarrow> jsError + string list" where
  "keyPhraseStep this topic positionWords sentence phrases =
     (let lowerSentence = toLowerCase sentence in
      case coreTopics this of
        None \<Rightarrow> Inl (TypeError (undefinedRead topic))
      | Some m \<Rightarrow>
          (let hasTopicKeyword =
                 ((case m topic of
                     None \<Rightarrow> False
                   | Some kws \<Rightarrow> some (\<lambda>keyword. includesStr lowerSentence (toLowerCase keyword)) kws)
                  \<or> includesStr lowerSentence (toLowerCase topic));
               hasPositionIndicator = some (\<lambda>w. includesStr lowerSentence w) positionWords
           in Inr (if hasTopicKeyword \<and> hasPositionIndicator \<and> length (trim sentence) < 200
                   then phrases @ [trim sentence] else phrases)))"

definition extractKeyPhrases :: "crawler \<Rightarrow> string \<Rightarrow> string \<Rightarrow> string \<Rightarrow> jsError + string list" where
  "extractKeyPhrases this txt topic pos =
     (let sentences = longSentences txt;
          positionWords =
            (if pos = ''support''
             then [''support'', ''advocate'', ''believe'', ''committed'', ''will fight'']
             else [''oppose'', ''against'', ''reject'', ''block'', ''stop''])
      in case forEachE (keyPhraseStep this topic positionWords) sentences [] of
           Inl e \<Rightarrow> Inl e
         | Inr phrases \<Rightarrow> Inr (take 3 phrases))"

text \<open>\<^verbatim>\<open>analyzePosition(text, topic)\<close>. With an \<open>Inherited\<close> value for the topic,
  \<^verbatim>\<open>topicIndicators.support.filter\<close> reads \<^verbatim>\<open>filter\<close> of \<^verbatim>\<open>undefined\<close>.\<close>

definition analyzePosition :: "crawler \<Rightarrow> string \<Rightarrow> string \<Rightarrow> jsError + analysis" where
  "analyzePosition this txt topic =
     (if getTopicIndicators topic = Inherited then Inl (TypeError (undefinedRead ''filter''))
      else
        let supportS = supportScoreOf txt topic;
            opposeS = opposeScoreOf txt topic;
            strengthS = strengthScoreOf txt;
            (pos, conf) = decidePosition supportS opposeS strengthS
        in case extractKeyPhrases this txt topic pos of
             Inl e \<Rightarrow> Inl e
           | Inr phrases \<Rightarrow>
               Inr \<lparr>position = pos, confidence = conf,
                    analysis_strength = (if strengthS > 0 then ''strong'' else ''moderate''),
                    supportScore = supportS, opposeScore = opposeS, keyPhrases = phrases\<rparr>)"

section \<open>Content extractor\<close>

text \<open>The parsed page is what the crawler asks of cheerio: for an element, its text, tag
  name, the attributes \<^verbatim>\<open>class\<close>, \<^verbatim>\<open>id\<close> and \<^verbatim>\<open>title\<close>, the text of its first
  heading (\<^verbatim>\<open>find('h1, h2, h3').first().text()\<close>), the text of its first title-like
  descendant, and the number of descendants a selector finds; for the page, the elements
  a selector matches in document order, the content of the description meta tag, the
  text of \<^verbatim>\<open>title\<close>, and the anchors that carry an \<^verbatim>\<open>href\<close>.\<close>

record element =
  el_text :: string
  el_tagName :: string
  el_class :: "string option"
  el_id :: "string option"
  el_title :: "string option"
  el_heading :: string
  el_titleLike :: string
  el_find :: "string \<Rightarrow> nat"

record anchor =
  a_href :: string
  a_text :: string

record page =
  select :: "string \<Rightarrow> element list"
  metaDescription :: "string option"
  pageTitle :: string
  anchors :: "anchor list"

text \<open>\<^verbatim>\<open>attr(name) || ''\<close>.\<close>

definition orEmpty :: "string option \<Rightarrow> string" where
  "orEmpty v = (case v of None \<Rightarrow> [] | Some s \<Rightarrow> s)"

text \<open>The attribute selector \<^verbatim>\<open>[a*="v"]\<close>.\<close>

definition attrContains :: "string \<Rightarrow> string \<Rightarrow> string" where
  "attrContains a v = ''['' @ a @ ''*='' @ [CHR 0x22] @ v @ [CHR 0x22] @ '']''"

definition selectors :: "string list" where
  "selectors =
     [''main'', ''.content'', ''#content'', ''.page-content'', ''.main-content'',
      ''.entry-content'', ''.post-content'', ''.article-content'', ''.issues'', ''.policy'',
      ''.positions'', ''.priorities'', ''.agenda'', ''.platform'', ''.legislation'',
      attrContains ''id'' ''issue'', attrContains ''class'' ''issue'',
      attrContains ''id'' ''policy'', attrContains ''class'' ''policy'',
      attrContains ''id'' ''position'', attrContains ''class'' ''position'',
      ''article'', ''.field--name-body'',
      ''.field-item'', ''.paragraph'', ''section'' @ attrContains ''class'' ''content'',
      ''div'' @ attrContains ''class'' ''content'']"

definition hasStructuredContent :: "element \<Rightarrow> bool" where
  "hasStructuredContent e =
     some (\<lambda>indicator. el_find e indicator > 2)
       [''ul'', ''ol'', ''li'', ''h1'', ''h2'', ''h3'', ''h4'', ''p'',
        ''.policy-item'', ''.issue-item'', ''.position-item'']"

definition strongKeywords :: "string list" where
  "strongKeywords =
     [''policy'', ''position'', ''stance'', ''priority'', ''agenda'',
      ''platform'', ''issue'', ''legislation'', ''bill'', ''vote'',
      ''support'', ''oppose'', ''believe'', ''commitment'']"

definition topicKeywords :: "string list" where
  "topicKeywords =
     [''healthcare'', ''insurance'', ''medicare'', ''medicaid'',
      ''immigration'', ''border'', ''citizenship'', ''refugee'',
      ''economy'', ''jobs'', ''employment'', ''tax'', ''budget'',
      ''housing'', ''affordable'', ''homeless'', ''rent'',
      ''education'', ''school'', ''student'', ''teacher'',
      ''environment'', ''climate'', ''energy'', ''pollution'',
      ''defense'', ''military'', ''security'', ''veteran'',
      ''rights'', ''equality'', ''justice'', ''freedom'',
      ''criminal'', ''police'', ''reform'', ''prison'',
      ''social security'', ''retirement'', ''disability'',
      ''technology'', ''internet'', ''privacy'', ''data'']"

definition isKeySection :: "element \<Rightarrow> bool" where
  "isKeySection e =
     (let txt = toLowerCase (el_text e);
          className = orEmpty (el_class e);
          ident = orEmpty (el_id e);
          tag = toLowerCase (el_tagName e);
          attrText = toLowerCase (className @ '' '' @ ident)
      in if some (\<lambda>keyword. includesStr attrText keyword) strongKeywords then True
         else if tag = ''main'' \<or> includesStr className ''main'' \<or>
                 includesStr className ''primary'' \<or> includesStr ident ''main'' \<or>
                 includesStr ident ''content'' then True
         else
           (let strongMatches = countHits txt strongKeywords;
                topicMatches = countHits txt topicKeywords;
                score = strongMatches * 2 + topicMatches
            in score \<ge> 3 \<or> (strongMatches \<ge> 1 \<and> topicMatches \<ge> 2) \<or>
               includesStr txt ''i believe'' \<or> includesStr txt ''my position'' \<or>
               includesStr txt ''will fight for'' \<or> includesStr txt ''committed to'' \<or>
               includesStr txt ''plan to''))"

text \<open>\<^verbatim>\<open>xs.findIndex(p)\<close> (\<^const>\<open>None\<close> for \<^verbatim>\<open>-1\<close>) and the idiom
  \<^verbatim>\<open>xs.filter((x, index, self) => index === self.findIndex(y => key(y) === key(x)))\<close>,
  which keeps an entry when no earlier entry has its key.\<close>

fun findIndex :: "('a \<Rightarrow> bool) \<Rightarrow> 'a list \<Rightarrow> nat option" where
  "findIndex p [] = None"
| "findIndex p (x # xs) = (if p x then Some 0 else map_option Suc (findIndex p xs))"

definition uniqueBy :: "('a \<Rightarrow> 'k) \<Rightarrow> 'a list \<Rightarrow> 'a list" where
  "uniqueBy key xs =
     map snd (filter (\<lambda>(index, x). findIndex (\<lambda>y. key y = key x) xs = Some index)
                (enumerate 0 xs))"

text \<open>The section built for an element a selector matched, \<^verbatim>\<open>text\<close> being the trimmed
  text of the element.\<close>

definition elementTitle :: "element \<Rightarrow> string" where
  "elementTitle e =
     (if trim (el_heading e) \<noteq> [] then trim (el_heading e)
      else if orEmpty (el_title e) \<noteq> [] then orEmpty (el_title e)
      else trim (el_titleLike e))"

definition elementSection :: "string \<Rightarrow> element \<Rightarrow> contentSection" where
  "elementSection selector e =
     \<lparr>sec_selector = selector, sec_title = elementTitle e,
      sec_text = take 3000 (trim (el_text e)),
      sec_isKeySection = isKeySection e,
      sec_hasStructuredContent = hasStructuredContent e\<rparr>"

definition keptElement :: "element \<Rightarrow> bool" where
  "keptElement e = (length (trim (el_text e)) > 100 \<and> length (trim (el_text e)) < 5000)"

definition metaSections :: "page \<Rightarrow> contentSection list" where
  "metaSections pg =
     (case metaDescription pg of
        None \<Rightarrow> []
      | Some d \<Rightarrow>
          if length d > 50
          then [\<lparr>sec_selector = ''meta[description]'', sec_title = trim (pageTitle pg),
                 sec_text = d, sec_isKeySection = True, sec_hasStructuredContent = False\<rparr>]
          else [])"

text \<open>The array \<^verbatim>\<open>sections\<close> before it is filtered: one entry for each kept element of
  each selector, in the order of the selectors, then the meta description.\<close>

definition candidateSections :: "page \<Rightarrow> contentSection list" where
  "candidateSections pg =
     concat (map (\<lambda>selector. map (elementSection selector)
                                 (filter keptElement (select pg selector))) selectors)
     @ metaSections pg"

definition sectionScore :: "contentSection \<Rightarrow> int" where
  "sectionScore s =
     (if sec_isKeySection s then 2 else 0) + (if sec_hasStructuredContent s then 1 else 0)"

text \<open>\<^verbatim>\<open>findContentSections($)\<close>. \<^verbatim>\<open>Array.prototype.sort\<close> is stable and the
  comparator is \<^verbatim>\<open>scoreB - scoreA\<close>: a stable sort on the negated score.\<close>

definition findContentSections :: "page \<Rightarrow> contentSection list" where
  "findContentSections pg =
     take 15 (sort_key (\<lambda>s. - sectionScore s)
               (uniqueBy (\<lambda>s. take 200 (sec_text s)) (candidateSections pg)))"

section \<open>Topic classifier and position extraction\<close>

text \<open>The rows of \<^verbatim>\<open>SELECT DISTINCT ... FROM policy_topics t JOIN topic_aliases a ON
  t.id = a.topic_id\<close>: topic by topic, each with its aliases, in table order (SQL leaves
  the order open; the result of \<^verbatim>\<open>identifyTopics\<close> depends on it only in the order of
  the topics it lists).\<close>

definition topicAliasRows :: "database \<Rightarrow> (topicRow \<times> aliasRow) list" where
  "topicAliasRows d =
     remdups (concat (map (\<lambda>t. map (\<lambda>a. (t, a))
                                   (filter (\<lambda>a. alias_topic_id a = row_id t) (topic_aliases d)))
                          (policy_topics d)))"

text \<open>\<^verbatim>\<open>existingTopic.confidence = row.confidence_score\<close> on the entry \<^verbatim>\<open>find\<close>
  returned: the first with that id.\<close>

fun raiseConfidence :: "nat \<Rightarrow> rat \<Rightarrow> topic list \<Rightarrow> topic list" where
  "raiseConfidence i c [] = []"
| "raiseConfidence i c (t # ts) =
     (if topic_ident t = i then t\<lparr>topic_confidence := c\<rparr> # ts
      else t # raiseConfidence i c ts)"

definition identifyStep :: "string \<Rightarrow> topic list \<Rightarrow> topicRow \<times> aliasRow \<Rightarrow> topic list" where
  "identifyStep lowerText topics row =
     (let t = fst row; a = snd row in
      if includesStr lowerText (alias_text a) then
        (case find (\<lambda>x. topic_ident x = row_id t) topics of
           None \<Rightarrow>
             topics @ [\<lparr>topic_ident = row_id t, canonical_name = row_canonical_name t,
                        display_name = row_display_name t,
                        topic_confidence = alias_confidence_score a\<rparr>]
         | Some existingTopic \<Rightarrow>
             if alias_confidence_score a > topic_confidence existingTopic
             then raiseConfidence (row_id t) (alias_confidence_score a) topics
             else topics)
      else topics)"

definition identifyTopics :: "crawler \<Rightarrow> string \<Rightarrow> topic list" where
  "identifyTopics this txt =
     foldl (identifyStep (toLowerCase txt)) [] (topicAliasRows (db this))"

definition getTopicByCanonicalName :: "crawler \<Rightarrow> string \<Rightarrow> topicRow option" where
  "getTopicByCanonicalName this canonicalName =
     find (\<lambda>t. row_canonical_name t = canonicalName) (policy_topics (db this))"

text \<open>\<^verbatim>\<open>extractPositionSummary(text, topic, analysis)\<close>. In the callback the read of
  \<^verbatim>\<open>this.coreTopics[topic.canonical_name]\<close> is the third operand of \<^verbatim>\<open>||\<close>: it is
  evaluated when the sentence holds neither name of the topic.\<close>

definition positionIndicatorWords :: "string list" where
  "positionIndicatorWords =
     [''support'', ''oppose'', ''believe'', ''advocate'', ''against'',
      ''committed'', ''will fight'', ''priority'', ''important'']"

definition summaryStep :: "crawler \<Rightarrow> topic \<Rightarrow> string \<Rightarrow> string list \<Rightarrow> jsError + string list" where
  "summaryStep this topic sentence relevantSentences =
     (let lowerSentence = toLowerCase sentence;
          collect = (\<lambda>hasTopicKeyword.
            let hasPositionIndicator =
                  some (\<lambda>indicator. includesStr lowerSentence indicator) positionIndicatorWords
            in if hasTopicKeyword \<and> hasPositionIndicator then relevantSentences @ [trim sentence]
               else if hasTopicKeyword \<and> length (trim sentence) > 50
               then relevantSentences @ [trim sentence]
               else relevantSentences)
      in if includesStr lowerSentence (toLowerCase (canonical_name topic)) \<or>
            includesStr lowerSentence (toLowerCase (display_name topic))
         then Inr (collect True)
         else
           (case coreTopics this of
              None \<Rightarrow> Inl (TypeError (undefinedRead (canonical_name topic)))
            | Some m \<Rightarrow>
                Inr (collect
                  (some (\<lambda>keyword. includesStr lowerSentence (toLowerCase keyword))
                     (case m (canonical_name topic) of None \<Rightarrow> [] | Some kws \<Rightarrow> kws)))))"

definition extractPositionSummary ::
  "crawler \<Rightarrow> string \<Rightarrow> topic \<Rightarrow> analysis option \<Rightarrow> jsError + string" where
  "extractPositionSummary this txt topic an =
     (let sentences = longSentences txt in
      if (case an of None \<Rightarrow> False | Some a \<Rightarrow> length (keyPhrases a) > 0)
      then Inr (join ''. '' (take 2 (keyPhrases (the an))) @ ''.'')
      else
        (case forEachE (summaryStep this topic) sentences [] of
           Inl e \<Rightarrow> Inl e
         | Inr relevantSentences \<Rightarrow>
             if length relevantSentences > 0
             then Inr (join ''. '' (take 2 relevantSentences) @ ''.'')
             else
               (let fallbackSentences =
                      filter (\<lambda>sentence.
                          includesStr (toLowerCase sentence) (toLowerCase (canonical_name topic)) \<or>
                          includesStr (toLowerCase sentence) (toLowerCase (display_name topic)))
                        sentences
                in if length fallbackSentences > 0
                   then Inr (join ''. '' (take 2 fallbackSentences) @ ''.'')
                   else Inr (join ''. '' (take 2 sentences) @ ''.''))))"

definition isKeyIssue :: "contentSection \<Rightarrow> bool" where
  "isKeyIssue section =
     some (\<lambda>indicator. includesStr (toLowerCase (sec_text section)) indicator)
       [''priority'', ''key issue'', ''important'', ''focus'', ''commitment'', ''champion'',
        ''fight for'', ''dedicated to'']"

text \<open>The position object \<^verbatim>\<open>extractPolicyPositions\<close> builds for a section, a topic,
  the analysis and the summary.\<close>

definition buildPosition ::
  "contentSection \<Rightarrow> string \<Rightarrow> topic \<Rightarrow> analysis \<Rightarrow> string \<Rightarrow> policyPosition" where
  "buildPosition section sourceUrl tp an positionSummary =
     \<lparr>topic_id = topic_ident tp,
      position_summary = positionSummary,
      position_details = take 1500 (sec_text section),
      is_key_issue = (isKeyIssue section \<or> analysis_strength an = ''strong''),
      source_url = sourceUrl,
      source_section =
        (if sec_title section \<noteq> [] then sec_title section else sec_selector section),
      confidence_score = min (topic_confidence tp) (confidence an),
      stance = position an,
      strength = analysis_strength an,
      key_phrases = join ''; '' (keyPhrases an)\<rparr>"

text \<open>The body of \<^verbatim>\<open>topics.forEach\<close> in \<^verbatim>\<open>extractPolicyPositions\<close>: one topic of one
  section; \<open>positions\<close> is the array it pushes to.\<close>

definition topicStep ::
  "crawler \<Rightarrow> contentSection \<Rightarrow> string \<Rightarrow> topic \<Rightarrow> policyPosition list
     \<Rightarrow> jsError + policyPosition list" where
  "topicStep this section sourceUrl tp positions =
     (case analyzePosition this (sec_text section) (canonical_name tp) of
        Inl e \<Rightarrow> Inl e
      | Inr an \<Rightarrow>
          if confidence an > 2/10 \<and> position an \<noteq> ''neutral'' then
            (case extractPositionSummary this (sec_text section) tp (Some an) of
               Inl e \<Rightarrow> Inl e
             | Inr positionSummary \<Rightarrow>
                 (let pos = buildPosition section sourceUrl tp an positionSummary
                  in if length (position_summary pos) > 20 then Inr (positions @ [pos])
                     else Inr positions))
          else Inr positions)"

text \<open>The topics of a section: those \<^verbatim>\<open>identifyTopics\<close> finds, with the hint of the
  link put in front at confidence 0.9 when it names a stored topic not among them. A
  hint is \<^verbatim>\<open>null\<close> (\<^const>\<open>None\<close>) or a string, falsy when empty.\<close>

definition sectionTopics :: "crawler \<Rightarrow> contentSection \<Rightarrow> string option \<Rightarrow> topic list" where
  "sectionTopics this section hintTopic =
     (let topics = identifyTopics this (sec_text section) in
      case hintTopic of
        None \<Rightarrow> topics
      | Some h \<Rightarrow>
          if h = [] then topics
          else
            (case getTopicByCanonicalName this h of
               None \<Rightarrow> topics
             | Some hintTopicData \<Rightarrow>
                 if find (\<lambda>t. topic_ident t = row_id hintTopicData) topics = None
                 then \<lparr>topic_ident = row_id hintTopicData,
                       canonical_name = row_canonical_name hintTopicData,
                       display_name = row_display_name hintTopicData,
                       topic_confidence = 9/10\<rparr> # topics
                 else topics))"

definition sectionStep ::
  "crawler \<Rightarrow> string \<Rightarrow> string option \<Rightarrow> contentSection \<Rightarrow> policyPosition list
     \<Rightarrow> jsError + policyPosition list" where
  "sectionStep this sourceUrl hintTopic section positions =
     forEachE (topicStep this section sourceUrl) (sectionTopics this section hintTopic) positions"

definition extractPolicyPositions ::
  "crawler \<Rightarrow> page \<Rightarrow> string \<Rightarrow> string option \<Rightarrow> jsError + policyPosition list" where
  "extractPolicyPositions this pg sourceUrl hintTopic =
     forEachE (sectionStep this sourceUrl hintTopic) (findContentSections pg) []"

section \<open>Page discovery\<close>

text \<open>The fields of a parsed \<^verbatim>\<open>URL\<close> the crawler reads. The parser itself
  (\<^verbatim>\<open>new URL(s)\<close> of Node's \<^verbatim>\<open>url\<close> module) is a parameter of the functions that
  call it: a function from strings to parsed URLs, \<^const>\<open>None\<close> where the constructor
  throws its \<^verbatim>\<open>TypeError\<close>.\<close>

record url =
  protocol :: string
  hostname :: string
  port :: string
  pathname :: string
  search :: string

definition invalidUrl :: jsError where
  "invalidUrl = TypeError ''Invalid URL''"

text \<open>An entry of \<^verbatim>\<open>policyPages\<close>: \<^verbatim>\<open>{url, text, topic}\<close>, the topic \<^verbatim>\<open>null\<close> when
  no keyword matched.\<close>

record policyPage =
  pp_url :: string
  pp_text :: string
  pp_topic :: "string option"

definition policyPatterns :: "string list" where
  "policyPatterns =
     [''/legislation/'', ''/issues/'', ''/policy/'', ''/positions/'', ''/priorities/'',
      ''/agenda/'', ''/platform/'']"

definition topicPatterns :: "string list" where
  "topicPatterns =
     [''healthcare'', ''health'', ''medical'',
      ''immigration'', ''border'',
      ''economy'', ''economic'', ''jobs'',
      ''housing'', ''affordable-housing'',
      ''education'', ''schools'',
      ''environment'', ''climate'', ''energy'',
      ''defense'', ''military'', ''veterans'',
      ''civil-rights'', ''voting'',
      ''criminal-justice'', ''justice'',
      ''tax'', ''taxes'',
      ''social-security'', ''retirement'',
      ''technology'', ''privacy'', ''cybersecurity'']"

definition topicMap :: "(string \<times> string list) list" where
  "topicMap =
     [(''healthcare'', [''health'', ''medical'', ''medicare'', ''medicaid'', ''aca'']),
      (''immigration'', [''immigration'', ''border'', ''asylum'', ''citizenship'']),
      (''economy'', [''economy'', ''economic'', ''jobs'', ''employment'', ''trade'']),
      (''housing'', [''housing'', ''affordable'', ''mortgage'', ''rent'']),
      (''education'', [''education'', ''school'', ''student'', ''college'']),
      (''environment'', [''environment'', ''climate'', ''energy'', ''green'']),
      (''defense'', [''defense'', ''military'', ''veteran'', ''security'']),
      (''civil_rights'', [''civil'', ''rights'', ''voting'', ''equality'']),
      (''criminal_justice'', [''justice'', ''criminal'', ''police'', ''crime'']),
      (''taxation'', [''tax'', ''taxes'', ''revenue'', ''fiscal'']),
      (''social_security'', [''social'', ''security'', ''retirement'', ''senior'']),
      (''technology'', [''technology'', ''tech'', ''privacy'', ''cyber''])]"

text \<open>\<^verbatim>\<open>detectTopicFromUrl(path, linkText)\<close>: the first entry of the map, in the order
  it is written, one of whose keywords the combined text holds.\<close>

definition detectTopicFromUrl :: "string \<Rightarrow> string \<Rightarrow> string option" where
  "detectTopicFromUrl path linkText =
     (let combined = toLowerCase (path @ '' '' @ linkText) in
      map_option fst
        (find (\<lambda>entry. some (\<lambda>keyword. includesStr combined keyword) (snd entry)) topicMap))"

text \<open>The callback of \<^verbatim>\<open>$('a[href]').each\<close>. An \<^verbatim>\<open>href\<close> that starts with
  \<^verbatim>\<open>http\<close> is taken as it is, one that starts with \<^verbatim>\<open>/\<close> is put behind the protocol
  and the host name of the base, any other is skipped. A \<^verbatim>\<open>URL\<close> constructor that
  throws is caught and the link skipped. \<open>base\<close> is the parsed base URL.\<close>

definition linkStep ::
  "(string \<Rightarrow> url option) \<Rightarrow> url \<Rightarrow> policyPage list \<Rightarrow> anchor \<Rightarrow> policyPage list" where
  "linkStep URL base policyPages a =
     (let href = a_href a;
          linkText = toLowerCase (trim (a_text a));
          baseHostname = hostname base
      in if href = [] then policyPages
         else if \<not> startsWith href ''http'' \<and> \<not> startsWith href ''/'' then policyPages
         else
           (let fullUrl = (if startsWith href ''http'' then href
                           else protocol base @ ''//'' @ baseHostname @ href)
            in case URL fullUrl of
                 None \<Rightarrow> policyPages
               | Some u \<Rightarrow>
                   if hostname u \<noteq> baseHostname then policyPages
                   else
                     (let path = toLowerCase (pathname u);
                          matchesPattern =
                            some (\<lambda>pattern. includesStr path pattern) policyPatterns;
                          matchesTopic =
                            some (\<lambda>tp. includesStr path tp \<or> includesStr linkText tp)
                              topicPatterns
                      in if matchesPattern \<or> matchesTopic
                         then policyPages @
                                [\<lparr>pp_url = fullUrl, pp_text = linkText,
                                  pp_topic = detectTopicFromUrl path linkText\<rparr>]
                         else policyPages)))"

text \<open>\<^verbatim>\<open>discoverPolicyPages($, baseUrl)\<close>. The base URL is parsed outside the
  \<^verbatim>\<open>try\<close>: an invalid base throws.\<close>

definition discoverPolicyPages ::
  "(string \<Rightarrow> url option) \<Rightarrow> page \<Rightarrow> string \<Rightarrow> jsError + policyPage list" where
  "discoverPolicyPages URL pg baseUrl =
     (case URL baseUrl of
        None \<Rightarrow> Inl invalidUrl
      | Some base \<Rightarrow>
          Inr (take 15 (uniqueBy pp_url (foldl (linkStep URL base) [] (anchors pg)))))"

section \<open>Fetcher\<close>

text \<open>A request ends in one of three events: the response arrives (status code, status
  message, the \<^verbatim>\<open>Location\<close> header if any, the body), the request emits
  \<^verbatim>\<open>error\<close> (connection reset, refused, DNS failure), or it emits \<^verbatim>\<open>timeout\<close>
  after thirty seconds. The network is the list of the events that answer the
  successive requests of one call of \<^verbatim>\<open>fetchWebsiteContent\<close>.\<close>

datatype netEvent =
    Response nat string "string option" string
  | RequestError jsError
  | RequestTimeout

text \<open>What a call does: how its promise settles (\<^const>\<open>None\<close>: it never does, the events
  ran out), the URLs requested in order, and the delays of the timers set, in
  milliseconds.\<close>

record fetchRun =
  outcome :: "(jsError + string) option"
  requested :: "string list"
  delays :: "nat list"

text \<open>The decimal digits of a number, as a template literal prints it.\<close>

function showNat :: "nat \<Rightarrow> string" where
  "showNat n =
     (if n < 10 then [char_of (48 + n)] else showNat (n div 10) @ [char_of (48 + n mod 10)])"
  by pat_completeness auto
termination
  by (relation "measure (\<lambda>n. n)") auto

declare showNat.simps [simp del]

definition httpError :: "nat \<Rightarrow> string \<Rightarrow> jsError" where
  "httpError statusCode statusMessage =
     Error (''HTTP '' @ showNat statusCode @ '': '' @ statusMessage)"

text \<open>\<^verbatim>\<open>fetchWebsiteContent(url, retryCount)\<close>. A redirect and a retry resolve the
  promise with the promise of the recursive call, so the call settles as that one does.
  The \<^verbatim>\<open>timeout\<close> handler destroys the request and rejects at once; what the
  destroyed request emits afterwards finds the promise settled.\<close>

fun fetchWebsiteContent ::
  "(string \<Rightarrow> url option) \<Rightarrow> crawler \<Rightarrow> netEvent list \<Rightarrow> string \<Rightarrow> nat \<Rightarrow> fetchRun" where
  "fetchWebsiteContent URL this [] u retryCount =
     (case URL u of
        None \<Rightarrow> \<lparr>outcome = Some (Inl invalidUrl), requested = [], delays = []\<rparr>
      | Some parsedUrl \<Rightarrow> \<lparr>outcome = None, requested = [u], delays = []\<rparr>)"
| "fetchWebsiteContent URL this (ev # evs) u retryCount =
     (case URL u of
        None \<Rightarrow> \<lparr>outcome = Some (Inl invalidUrl), requested = [], delays = []\<rparr>
      | Some parsedUrl \<Rightarrow>
          (case ev of
             Response statusCode statusMessage location body \<Rightarrow>
               if statusCode \<ge> 300 \<and> statusCode < 400 \<and> orEmpty location \<noteq> [] then
                 (let r = fetchWebsiteContent URL this evs (orEmpty location) retryCount
                  in r\<lparr>requested := u # requested r\<rparr>)
               else if statusCode \<noteq> 200 then
                 \<lparr>outcome = Some (Inl (httpError statusCode statusMessage)),
                  requested = [u], delays = []\<rparr>
               else \<lparr>outcome = Some (Inr body), requested = [u], delays = []\<rparr>
           | RequestError e \<Rightarrow>
               if retryCount < maxRetries this then
                 (let r = fetchWebsiteContent URL this evs u (retryCount + 1)
                  in r\<lparr>requested := u # requested r,
                       delays := 1000 * (retryCount + 1) # delays r\<rparr>)
               else \<lparr>outcome = Some (Inl e), requested = [u], delays = []\<rparr>
           | RequestTimeout \<Rightarrow>
               \<lparr>outcome = Some (Inl (Error ''Request timeout'')), requested = [u],
                delays = []\<rparr>))"

section \<open>Position store, crawl log and scheduler\<close>

text \<open>\<^verbatim>\<open>savePosition(politicianId, position)\<close>: \<^verbatim>\<open>INSERT OR REPLACE\<close> into a table
  with \<^verbatim>\<open>UNIQUE (politician_id, topic_id)\<close> deletes the rows that hold the pair and
  inserts the new row, whose id is one more than the largest id the table has used
  (\<^verbatim>\<open>AUTOINCREMENT\<close>). The values bound are those of the position, with
  \<^verbatim>\<open>position.stance || 'neutral'\<close> and \<^verbatim>\<open>position.strength || 'moderate'\<close>. The two
  timestamp columns, which the database fills from its clock, and the foreign keys are
  not modelled.\<close>

definition boundRow :: "nat \<Rightarrow> string \<Rightarrow> policyPosition \<Rightarrow> positionRow" where
  "boundRow newId politicianId pos =
     \<lparr>topic_id = topic_id pos,
      position_summary = position_summary pos,
      position_details = position_details pos,
      is_key_issue = is_key_issue pos,
      source_url = source_url pos,
      source_section = source_section pos,
      confidence_score = confidence_score pos,
      stance = (if stance pos = [] then ''neutral'' else stance pos),
      strength = (if strength pos = [] then ''moderate'' else strength pos),
      key_phrases = key_phrases pos,
      position_row_id = newId,
      politician_id = politicianId\<rparr>"

definition savePosition :: "crawler \<Rightarrow> string \<Rightarrow> policyPosition \<Rightarrow> crawler" where
  "savePosition this politicianId pos =
     (let d = db this;
          newId = Suc (fold max (map position_row_id (politician_positions d))
                         (politician_positions_seq d))
      in this\<lparr>db := d\<lparr>politician_positions :=
                         filter (\<lambda>r. \<not> (politician_id r = politicianId \<and>
                                          topic_id r = topic_id pos))
                           (politician_positions d)
                         @ [boundRow newId politicianId pos],
                       politician_positions_seq := newId\<rparr>\<rparr>)"



text \<open>\<^verbatim>\<open>logCrawlAttempt\<close> appends a row; \<open>nowSec\<close> is the \<^verbatim>\<open>CURRENT_TIMESTAMP\<close> the
  database gives it.\<close>

definition logCrawlAttempt ::
  "crawler \<Rightarrow> int \<Rightarrow> string \<Rightarrow> string \<Rightarrow> string \<Rightarrow> nat \<Rightarrow> string option \<Rightarrow> int \<Rightarrow> crawler" where
  "logCrawlAttempt this nowSec politicianId websiteUrl status positionsFound errorMessage
       duration =
     (let d = db this;
          newId = Suc (fold max (map log_row_id (crawl_log d)) (crawl_log_seq d))
      in this\<lparr>db := d\<lparr>crawl_log :=
                         crawl_log d @
                           [\<lparr>log_row_id = newId, log_politician_id = politicianId,
                             website_url = websiteUrl, crawl_status = status,
                             positions_found = positionsFound,
                             error_message = errorMessage,
                             crawl_duration_ms = duration, crawled_at = nowSec\<rparr>],
                       crawl_log_seq := newId\<rparr>\<rparr>)"

text \<open>SQL \<^verbatim>\<open>col LIKE '%pat%'\<close>: unknown, so not selected, on \<^verbatim>\<open>NULL\<close>; the letters
  A-Z match without regard to case.\<close>

definition asciiLower :: "string \<Rightarrow> string" where
  "asciiLower s =
     map (\<lambda>c. let n = (of_char c :: nat) in
               if 65 \<le> n \<and> n \<le> 90 then char_of (n + 32) else c) s"

definition likeContains :: "string option \<Rightarrow> string \<Rightarrow> bool" where
  "likeContains col pat =
     (case col of None \<Rightarrow> False | Some s \<Rightarrow> includesStr (asciiLower s) (asciiLower pat))"

definition secondsPerDay :: int where
  "secondsPerDay = 86400"

text \<open>\<^verbatim>\<open>getPoliticiansWithWebsites()\<close>, the query of the batch run. \<open>nowMs\<close> is the
  clock in milliseconds; \<^verbatim>\<open>datetime('now', '-7 days')\<close> is the second it falls in, less
  seven days. Each \<^verbatim>\<open>NOT IN\<close> looks at every row of the log. \<^verbatim>\<open>ORDER BY p.name\<close>
  compares byte by byte; rows of equal name keep the order of the table here, where
  SQL leaves it open.\<close>

definition loggedWithin :: "int \<Rightarrow> int \<Rightarrow> logRow \<Rightarrow> bool" where
  "loggedWithin nowMs days cl = (crawled_at cl > nowMs div 1000 - days * secondsPerDay)"

definition getPoliticiansWithWebsites :: "crawler \<Rightarrow> int \<Rightarrow> politician list" where
  "getPoliticiansWithWebsites this nowMs =
     (let logRows = crawl_log (db this) in
      sort_key pol_name
        (filter (\<lambda>p.
            website p \<noteq> None \<and> website p \<noteq> Some [] \<and>
            pol_id p \<notin> set (map log_politician_id
               (filter (\<lambda>cl. crawl_status cl = ''success'' \<and> loggedWithin nowMs 7 cl)
                  logRows)) \<and>
            pol_id p \<notin> set (map log_politician_id
               (filter (\<lambda>cl. crawl_status cl = ''error'' \<and>
                             likeContains (error_message cl) ''ENOTFOUND'' \<and>
                             loggedWithin nowMs 30 cl) logRows)) \<and>
            pol_id p \<notin> set (map log_politician_id
               (filter (\<lambda>cl. crawl_status cl = ''error'' \<and>
                             likeContains (error_message cl) ''403'' \<and>
                             loggedWithin nowMs 7 cl) logRows)))
          (politicians (db this))))"





section \<open>Crawling one subject and the batch run\<close>

text \<open>The world outside the process: the URL parser, the events that answer the requests
  of the fetch of a URL, the page \<^verbatim>\<open>cheerio.load\<close> parses from a body, and what the
  clocks read when the log row with a given id is written (the database's
  \<^verbatim>\<open>CURRENT_TIMESTAMP\<close> in seconds, and \<^verbatim>\<open>Date.now() - startTime\<close>).\<close>

record world =
  parseUrl :: "string \<Rightarrow> url option"
  network :: "string \<Rightarrow> netEvent list"
  load :: "string \<Rightarrow> page"
  logTime :: "nat \<Rightarrow> int"
  logDuration :: "nat \<Rightarrow> int"

text \<open>\<^verbatim>\<open>await this.fetchWebsiteContent(url)\<close>: \<^const>\<open>None\<close> when the promise never
  settles.\<close>

definition awaitFetch :: "world \<Rightarrow> crawler \<Rightarrow> string \<Rightarrow> (jsError + string) option" where
  "awaitFetch w this u = outcome (fetchWebsiteContent (parseUrl w) this (network w u) u 0)"

text \<open>The body of the loop over \<^verbatim>\<open>policyPages\<close> in
  \<^verbatim>\<open>extractPositionsFromWebsite\<close>, with its own \<^verbatim>\<open>try\<close>: an exception of the fetch
  or of the extraction of the page is printed and the loop goes on.\<close>

definition policyPageStep ::
  "world \<Rightarrow> crawler \<Rightarrow> policyPosition list \<Rightarrow> policyPage \<Rightarrow> policyPosition list option" where
  "policyPageStep w this positions policyPage =
     (case awaitFetch w this (pp_url policyPage) of
        None \<Rightarrow> None
      | Some (Inl e) \<Rightarrow> Some positions
      | Some (Inr policyContent) \<Rightarrow>
          if policyContent = [] then Some positions
          else
            (case extractPolicyPositions this (load w policyContent) (pp_url policyPage)
                    (pp_topic policyPage) of
               Inl e \<Rightarrow> Some positions
             | Inr policyPositions \<Rightarrow> Some (positions @ policyPositions)))"

fun policyPagesLoop ::
  "world \<Rightarrow> crawler \<Rightarrow> policyPosition list \<Rightarrow> policyPage list \<Rightarrow> policyPosition list option" where
  "policyPagesLoop w this positions [] = Some positions"
| "policyPagesLoop w this positions (policyPage # rest) =
     (case policyPageStep w this positions policyPage of
        None \<Rightarrow> None
      | Some positions' \<Rightarrow> policyPagesLoop w this positions' rest)"

text \<open>The \<^verbatim>\<open>try\<close> block of \<^verbatim>\<open>extractPositionsFromWebsite\<close> for a website: the
  exception that leaves it, or \<^verbatim>\<open>positionsFound\<close> and the crawler after the positions
  are saved; \<^const>\<open>None\<close> when a fetch never settles.\<close>

definition crawlWebsite ::
  "world \<Rightarrow> crawler \<Rightarrow> string \<Rightarrow> string \<Rightarrow> (jsError + nat \<times> crawler) option" where
  "crawlWebsite w this politicianId site =
     (case awaitFetch w this site of
        None \<Rightarrow> None
      | Some (Inl e) \<Rightarrow> Some (Inl e)
      | Some (Inr websiteContent) \<Rightarrow>
          if websiteContent = [] then Some (Inl (Error ''Failed to fetch website content''))
          else
            (case extractPolicyPositions this (load w websiteContent) site None of
               Inl e \<Rightarrow> Some (Inl e)
             | Inr mainPositions \<Rightarrow>
                 (case discoverPolicyPages (parseUrl w) (load w websiteContent) site of
                    Inl e \<Rightarrow> Some (Inl e)
                  | Inr policyPages \<Rightarrow>
                      (case policyPagesLoop w this mainPositions policyPages of
                         None \<Rightarrow> None
                       | Some positions \<Rightarrow>
                           Some (Inr (length positions,
                                      foldl (\<lambda>c p. savePosition c politicianId p) this
                                        positions))))))"

text \<open>\<^verbatim>\<open>extractPositionsFromWebsite(politician)\<close>. The batch run passes politicians
  whose website is a non-empty string. With a \<^verbatim>\<open>NULL\<close> website the fetch rejects, and
  \<^verbatim>\<open>logCrawlAttempt\<close> then violates \<^verbatim>\<open>website_url TEXT NOT NULL\<close>: the exception
  leaves the function.\<close>

definition nextLogId :: "crawler \<Rightarrow> nat" where
  "nextLogId this =
     Suc (fold max (map log_row_id (crawl_log (db this))) (crawl_log_seq (db this)))"

definition extractPositionsFromWebsite ::
  "world \<Rightarrow> crawler \<Rightarrow> politician \<Rightarrow> (jsError + crawler) option" where
  "extractPositionsFromWebsite w this politician =
     (case website politician of
        None \<Rightarrow> Some (Inl (Error ''NOT NULL constraint failed: crawl_log.website_url''))
      | Some site \<Rightarrow>
          (case crawlWebsite w this (pol_id politician) site of
             None \<Rightarrow> None
           | Some (Inr (positionsFound, saved)) \<Rightarrow>
               (let logged = logCrawlAttempt saved (logTime w (nextLogId saved))
                               (pol_id politician) site ''success'' positionsFound None
                               (logDuration w (nextLogId saved))
                in Some (Inr (logged\<lparr>processedCount := processedCount logged + 1\<rparr>)))
           | Some (Inl e) \<Rightarrow>
               (let failed = this\<lparr>errorsCount := errorsCount this + 1\<rparr>;
                    logged = logCrawlAttempt failed (logTime w (nextLogId failed))
                               (pol_id politician) site ''error'' 0 (Some (message e))
                               (logDuration w (nextLogId failed))
                in Some (Inr (logged\<lparr>processedCount := processedCount logged + 1\<rparr>)))))"

text \<open>The loop of \<^verbatim>\<open>crawlAllPoliticians\<close> over the politicians to process.\<close>

fun crawlLoop :: "world \<Rightarrow> crawler \<Rightarrow> politician list \<Rightarrow> (jsError + crawler) option" where
  "crawlLoop w this [] = Some (Inr this)"
| "crawlLoop w this (politician # rest) =
     (case extractPositionsFromWebsite w this politician of
        None \<Rightarrow> None
      | Some (Inl e) \<Rightarrow> Some (Inl e)
      | Some (Inr this') \<Rightarrow> crawlLoop w this' rest)"

text \<open>\<^verbatim>\<open>politicians.slice(0, limit)\<close> for an integer \<open>limit\<close>: a negative one counts
  from the end.\<close>

definition sliceTo :: "int \<Rightarrow> 'a list \<Rightarrow> 'a list" where
  "sliceTo limit xs =
     (if limit < 0 then take (nat (int (length xs) + limit)) xs else take (nat limit) xs)"

text \<open>\<^verbatim>\<open>crawlAllPoliticians(limit)\<close>: a \<^verbatim>\<open>null\<close> limit (\<^const>\<open>None\<close>) and the falsy
  limit 0 process every politician the scheduler returns.\<close>

definition crawlAllPoliticians ::
  "world \<Rightarrow> crawler \<Rightarrow> int \<Rightarrow> int option \<Rightarrow> (jsError + crawler) option" where
  "crawlAllPoliticians w this nowMs limit =
     (let eligible = getPoliticiansWithWebsites this nowMs;
          politiciansToProcess =
            (case limit of
               None \<Rightarrow> eligible
             | Some l \<Rightarrow> if l = 0 then eligible else sliceTo l eligible)
      in crawlLoop w this politiciansToProcess)"

section \<open>Concrete inputs\<close>

text \<open>A database with empty tables, and the crawler constructed on it.\<close>

definition emptyDb :: database where
  "emptyDb =
     \<lparr>politicians = [], policy_topics = [], topic_aliases = [],
      politician_positions = [], politician_positions_seq = 0,
      crawl_log = [], crawl_log_seq = 0\<rparr>"

text \<open>A URL parser for the concrete inputs. Modelled from the spec: Node's \<^verbatim>\<open>URL\<close>
  class is not part of the repository. It reads \<^verbatim>\<open>scheme://host[:port][/path][?query]\<close>
  as the WHATWG parser does for such plain URLs (scheme and host in lower case, an empty
  path read as \<^verbatim>\<open>/\<close>) and rejects a string without \<^verbatim>\<open>://\<close> or without a host.\<close>

definition simpleURL :: "string \<Rightarrow> url option" where
  "simpleURL s =
     (let scheme = takeWhile (\<lambda>c. c \<noteq> CHR '':'') s;
          rest = drop (length scheme) s
      in if scheme = [] \<or> \<not> startsWith rest ''://'' then None
         else
           (let afterSlashes = drop 3 rest;
                authority = takeWhile (\<lambda>c. c \<noteq> CHR ''/'' \<and> c \<noteq> CHR ''?'' \<and> c \<noteq> CHR ''#'')
                              afterSlashes;
                remainder = drop (length authority) afterSlashes;
                host = takeWhile (\<lambda>c. c \<noteq> CHR '':'') authority;
                path = takeWhile (\<lambda>c. c \<noteq> CHR ''?'' \<and> c \<noteq> CHR ''#'') remainder;
                query = takeWhile (\<lambda>c. c \<noteq> CHR ''#'') (drop (length path) remainder)
            in if host = [] then None
               else Some \<lparr>protocol = toLowerCase scheme @ '':'',
                          hostname = toLowerCase host,
                          port = drop (length host + 1) authority,
                          pathname = (if path = [] then ''/'' else path),
                          search = query\<rparr>))"









text \<open>A page with five elements that selectors match: a \<^verbatim>\<open>main\<close> element of 120
  characters; under \<^verbatim>\<open>.content\<close> an element with the same text and one of exactly 100
  characters; an \<^verbatim>\<open>article\<close> of 150 characters with three paragraphs; and under
  \<^verbatim>\<open>.issues\<close> an element of class \<^verbatim>\<open>issues\<close> with three list items.\<close>

definition plainElement :: "string \<Rightarrow> string \<Rightarrow> element" where
  "plainElement tag txt =
     \<lparr>el_text = txt, el_tagName = tag, el_class = None, el_id = None, el_title = None,
      el_heading = [], el_titleLike = [], el_find = (\<lambda>indicator. 0)\<rparr>"

definition elMain :: element where
  "elMain = plainElement ''MAIN'' (replicate 120 CHR ''a'')"

definition elDuplicate :: element where
  "elDuplicate = plainElement ''DIV'' (replicate 120 CHR ''a'')"

definition elHundred :: element where
  "elHundred = plainElement ''DIV'' (replicate 100 CHR ''b'')"

definition elArticle :: element where
  "elArticle =
     (plainElement ''ARTICLE'' (replicate 150 CHR ''c''))
       \<lparr>el_find := (\<lambda>indicator. if indicator = ''p'' then 3 else 0)\<rparr>"

definition elIssues :: element where
  "elIssues =
     (plainElement ''DIV'' (replicate 110 CHR ''d''))
       \<lparr>el_class := Some ''issues'',
        el_find := (\<lambda>indicator. if indicator = ''li'' then 3 else 0)\<rparr>"

definition examplePage :: page where
  "examplePage =
     \<lparr>select = (\<lambda>selector.
         if selector = ''main'' then [elMain]
         else if selector = ''.content'' then [elDuplicate, elHundred]
         else if selector = ''.issues'' then [elIssues]
         else if selector = ''article'' then [elArticle]
         else []),
      metaDescription = None, pageTitle = ''Issues'', anchors = []\<rparr>"

text \<open>A page whose only content is a meta description of 60 characters, and a page whose
  only element is a \<^verbatim>\<open>main\<close> with a text of exactly 100 characters.\<close>

definition metaPage :: page where
  "metaPage =
     \<lparr>select = (\<lambda>selector. []), metaDescription = Some (replicate 60 CHR ''m''),
      pageTitle = ''Home'', anchors = []\<rparr>"

definition hundredPage :: page where
  "hundredPage =
     \<lparr>select = (\<lambda>selector. if selector = ''main'' then [elHundred] else []),
      metaDescription = None, pageTitle = ''Home'', anchors = []\<rparr>"

section \<open>Properties of the stance analyzer\<close>

lemma forEachE_keyPhraseStep_undefined:
  "coreTopics this = None \<Longrightarrow> xs \<noteq> [] \<Longrightarrow>
   forEachE (keyPhraseStep this topic ws) xs acc = Inl (TypeError (undefinedRead topic))"
  by (cases xs) (simp_all add: keyPhraseStep_def Let_def)

lemma forEachE_keyPhraseStep_defined:
  "coreTopics this = Some m \<Longrightarrow> \<exists>ps. forEachE (keyPhraseStep this topic ws) xs acc = Inr ps"
  by (induction xs arbitrary: acc) (simp_all add: keyPhraseStep_def Let_def)

lemma extractKeyPhrases_undefined:
  "coreTopics this = None \<Longrightarrow> longSentences txt \<noteq> [] \<Longrightarrow>
   extractKeyPhrases this txt topic pos = Inl (TypeError (undefinedRead topic))"
  by (simp add: extractKeyPhrases_def Let_def forEachE_keyPhraseStep_undefined)

lemma extractKeyPhrases_no_sentence:
  "longSentences txt = [] \<Longrightarrow> extractKeyPhrases this txt topic pos = Inr []"
  by (simp add: extractKeyPhrases_def Let_def)

lemma extractKeyPhrases_defined:
  assumes "coreTopics this = Some m"
  shows "\<exists>ps. extractKeyPhrases this txt topic pos = Inr ps"
proof -
  obtain ps where
    "forEachE (keyPhraseStep this topic
        (if pos = ''support''
         then [''support'', ''advocate'', ''believe'', ''committed'', ''will fight'']
         else [''oppose'', ''against'', ''reject'', ''block'', ''stop'']))
       (longSentences txt) [] = Inr ps"
    using forEachE_keyPhraseStep_defined[OF assms] by blast
  then show ?thesis
    by (simp add: extractKeyPhrases_def Let_def)
qed

lemma analyzePosition_Inr:
  "analyzePosition this txt topic = Inr a \<Longrightarrow>
   getTopicIndicators topic \<noteq> Inherited \<and>
   (position a, confidence a) =
      decidePosition (supportScoreOf txt topic) (opposeScoreOf txt topic) (strengthScoreOf txt) \<and>
   supportScore a = supportScoreOf txt topic \<and> opposeScore a = opposeScoreOf txt topic \<and>
   analysis_strength a = (if strengthScoreOf txt > 0 then ''strong'' else ''moderate'') \<and>
   extractKeyPhrases this txt topic (position a) = Inr (keyPhrases a)"
  by (auto simp: analyzePosition_def Let_def split: if_splits sum.splits prod.splits)

lemma analyzePosition_returns:
  assumes "getTopicIndicators topic \<noteq> Inherited"
    and "longSentences txt = [] \<or> coreTopics this \<noteq> None"
  shows "\<exists>a. analyzePosition this txt topic = Inr a"
proof -
  obtain pos conf where d:
    "decidePosition (supportScoreOf txt topic) (opposeScoreOf txt topic) (strengthScoreOf txt)
       = (pos, conf)"
    by (cases "decidePosition (supportScoreOf txt topic) (opposeScoreOf txt topic)
                 (strengthScoreOf txt)")
  have "\<exists>ps. extractKeyPhrases this txt topic pos = Inr ps"
    using assms(2) extractKeyPhrases_no_sentence extractKeyPhrases_defined by blast
  then show ?thesis
    using assms(1) d by (auto simp: analyzePosition_def Let_def)
qed





section \<open>Properties of the content extractor\<close>

lemma findIndex_Some_iff:
  "findIndex P xs = Some i \<longleftrightarrow> i < length xs \<and> P (xs ! i) \<and> (\<forall>j<i. \<not> P (xs ! j))"
proof (induction xs arbitrary: i)
  case Nil
  then show ?case by simp
next
  case (Cons x xs)
  show ?case
  proof (cases i)
    case 0
    then show ?thesis by (cases "P x") simp_all
  next
    case (Suc k)
    show ?thesis
    proof (cases "P x")
      case True
      have "\<not> (\<forall>j<Suc k. \<not> P ((x # xs) ! j))" using True by (simp add: All_less_Suc2)
      then show ?thesis using True Suc by simp
    next
      case False
      have "(\<forall>j<Suc k. \<not> P ((x # xs) ! j)) \<longleftrightarrow> (\<forall>j<k. \<not> P (xs ! j))"
        using False by (simp add: All_less_Suc2)
      then show ?thesis using False Suc Cons.IH[of k] by simp
    qed
  qed
qed

lemma enumerate_nth: "enumerate 0 xs = map (\<lambda>i. (i, xs ! i)) [0..<length xs]"
  by (simp add: enumerate_eq_zip zip_eq_conv map_nth comp_def) 

lemma uniqueBy_nth:
  "uniqueBy key xs =
     map (\<lambda>i. xs ! i) (filter (\<lambda>i. \<forall>j<i. key (xs ! j) \<noteq> key (xs ! i)) [0..<length xs])"
proof -
  have c: "\<And>i. i \<in> set [0..<length xs] \<Longrightarrow>
      (findIndex (\<lambda>y. key y = key (xs ! i)) xs = Some i) =
      (\<forall>j<i. key (xs ! j) \<noteq> key (xs ! i))"
    by (simp add: findIndex_Some_iff)
  have f: "filter (\<lambda>i. findIndex (\<lambda>y. key y = key (xs ! i)) xs = Some i) [0..<length xs] =
        filter (\<lambda>i. \<forall>j<i. key (xs ! j) \<noteq> key (xs ! i)) [0..<length xs]"
    by (rule filter_cong[OF refl c])
  have "uniqueBy key xs =
      map snd (map (\<lambda>i. (i, xs ! i))
        (filter (\<lambda>i. findIndex (\<lambda>y. key y = key (xs ! i)) xs = Some i) [0..<length xs]))"
    unfolding uniqueBy_def enumerate_nth filter_map by (simp only: comp_def prod.case)
  also have "\<dots> = map (\<lambda>i. xs ! i)
        (filter (\<lambda>i. findIndex (\<lambda>y. key y = key (xs ! i)) xs = Some i) [0..<length xs])"
    by (simp only: map_map comp_def snd_conv)
  finally show ?thesis unfolding f .
qed

lemma uniqueBy_distinct: "distinct (map key (uniqueBy key xs))"
proof -
  let ?Q = "\<lambda>i. \<forall>j<i. key (xs ! j) \<noteq> key (xs ! i)"
  have "inj_on (\<lambda>i. key (xs ! i)) (set (filter ?Q [0..<length xs]))"
  proof (rule inj_onI)
    fix a b
    assume a: "a \<in> set (filter ?Q [0..<length xs])" and b: "b \<in> set (filter ?Q [0..<length xs])"
      and e: "key (xs ! a) = key (xs ! b)"
    show "a = b"
    proof (rule ccontr)
      assume "a \<noteq> b"
      then consider "a < b" | "b < a" by linarith
      then show False
      proof cases
        case 1 with b e show False by auto
      next
        case 2 with a e show False by auto
      qed
    qed
  qed
  then show ?thesis
    by (simp add: uniqueBy_nth distinct_map comp_def)
qed

lemma uniqueBy_subset: "set (uniqueBy key xs) \<subseteq> set xs"
  by (auto simp: uniqueBy_nth)

lemma first_with_key:
  "i < length xs \<Longrightarrow>
   \<exists>m\<le>i. (\<forall>j<m. key (xs ! j) \<noteq> key (xs ! m)) \<and> key (xs ! m) = key (xs ! i)"
proof (induction i rule: less_induct)
  case (less i)
  show ?case
  proof (cases "\<forall>j<i. key (xs ! j) \<noteq> key (xs ! i)")
    case True
    then show ?thesis by blast
  next
    case False
    then obtain j where j: "j < i" "key (xs ! j) = key (xs ! i)" by blast
    from less.IH[OF j(1)] less.prems j(1)
    obtain m where "m \<le> j" "\<forall>l<m. key (xs ! l) \<noteq> key (xs ! m)" "key (xs ! m) = key (xs ! j)"
      by auto
    with j show ?thesis by (intro exI[of _ m]) auto
  qed
qed

lemma uniqueBy_keys:
  assumes "c \<in> set xs"
  shows "\<exists>s\<in>set (uniqueBy key xs). key s = key c"
proof -
  from assms obtain i where i: "i < length xs" "xs ! i = c" by (auto simp: in_set_conv_nth)
  from first_with_key[OF i(1), of key]
  obtain m where m: "m \<le> i" "\<forall>j<m. key (xs ! j) \<noteq> key (xs ! m)" "key (xs ! m) = key (xs ! i)"
    by blast
  have "xs ! m \<in> set (uniqueBy key xs)"
    using m(1,2) i(1) by (auto simp: uniqueBy_nth)
  with m(3) i(2) show ?thesis by auto
qed

lemma candidate_origin:
  "s \<in> set (candidateSections pg) \<Longrightarrow>
   (\<exists>selector\<in>set selectors. \<exists>e\<in>set (select pg selector).
       keptElement e \<and> s = elementSection selector e) \<or>
   s \<in> set (metaSections pg)"
  by (auto simp: candidateSections_def)

lemma findContentSections_subset:
  "set (findContentSections pg) \<subseteq> set (candidateSections pg)"
proof -
  have "set (findContentSections pg) \<subseteq>
        set (uniqueBy (\<lambda>s. take 200 (sec_text s)) (candidateSections pg))"
    unfolding findContentSections_def
    by (rule subset_trans[OF set_take_subset]) simp
  then show ?thesis
    by (rule subset_trans) (rule uniqueBy_subset)
qed

lemma findContentSections_sorted:
  "sorted (map (\<lambda>s. - sectionScore s) (findContentSections pg))"
  unfolding findContentSections_def take_map[symmetric]
  by (rule sorted_wrt_take) (rule sorted_sort_key)

lemma findContentSections_descending:
  assumes "i < j" and "j < length (findContentSections pg)"
  shows "sectionScore (findContentSections pg ! j) \<le> sectionScore (findContentSections pg ! i)"
proof -
  have "map (\<lambda>s. - sectionScore s) (findContentSections pg) ! i \<le>
        map (\<lambda>s. - sectionScore s) (findContentSections pg) ! j"
    using findContentSections_sorted[of pg] assms
    by (intro sorted_nth_mono) simp_all
  then show ?thesis using assms by simp
qed

lemma findContentSections_distinct:
  "distinct (map (\<lambda>s. take 200 (sec_text s)) (findContentSections pg))"
proof -
  let ?key = "\<lambda>s. take 200 (sec_text s)"
  let ?U = "uniqueBy ?key (candidateSections pg)"
  have "mset (map ?key (sort_key (\<lambda>s. - sectionScore s) ?U)) = mset (map ?key ?U)"
    by simp
  then have "distinct (map ?key (sort_key (\<lambda>s. - sectionScore s) ?U))"
    using uniqueBy_distinct[of ?key "candidateSections pg"] mset_eq_imp_distinct_iff by blast
  then show ?thesis
    unfolding findContentSections_def take_map[symmetric] by (rule distinct_take)
qed

lemma findContentSections_all:
  assumes "length (uniqueBy (\<lambda>s. take 200 (sec_text s)) (candidateSections pg)) \<le> 15"
  shows "set (findContentSections pg) =
         set (uniqueBy (\<lambda>s. take 200 (sec_text s)) (candidateSections pg))"
  using assms by (simp add: findContentSections_def)

section \<open>Properties of position extraction\<close>

lemma forEachE_invariant:
  assumes "forEachE f xs s = Inr s'" and "P s"
    and "\<And>x a b. x \<in> set xs \<Longrightarrow> P a \<Longrightarrow> f x a = Inr b \<Longrightarrow> P b"
  shows "P s'"
  using assms
proof (induction xs arbitrary: s)
  case Nil
  then show ?case by simp
next
  case (Cons x xs)
  from Cons.prems(1) obtain b where b: "f x s = Inr b" and r: "forEachE f xs b = Inr s'"
    by (auto split: sum.splits)
  have "P b" using Cons.prems(3)[of x s b] Cons.prems(2) b by simp
  then show ?case by (rule Cons.IH[OF r]) (use Cons.prems(3) in auto)
qed

lemma topicStep_Inr:
  assumes "topicStep this section sourceUrl tp positions = Inr positions'"
  shows "positions' = positions \<or>
     (\<exists>an summary.
        analyzePosition this (sec_text section) (canonical_name tp) = Inr an \<and>
        confidence an > 2/10 \<and> position an \<noteq> ''neutral'' \<and>
        extractPositionSummary this (sec_text section) tp (Some an) = Inr summary \<and>
        length summary > 20 \<and>
        positions' = positions @ [buildPosition section sourceUrl tp an summary])"
  using assms
  by (auto simp: topicStep_def Let_def buildPosition_def split: sum.splits if_splits)

lemma extractPositionSummary_no_sentence:
  "longSentences txt = [] \<Longrightarrow> keyPhrases an = [] \<Longrightarrow>
   extractPositionSummary this txt tp (Some an) = Inr ''.''"
  by (simp add: extractPositionSummary_def Let_def)

lemma analyzePosition_undefined_Inr:
  assumes "coreTopics this = None" and "analyzePosition this txt topic = Inr an"
  shows "longSentences txt = [] \<and> keyPhrases an = []"
proof -
  have k: "extractKeyPhrases this txt topic (position an) = Inr (keyPhrases an)"
    using analyzePosition_Inr[OF assms(2)] by simp
  have "longSentences txt = []"
    using k extractKeyPhrases_undefined[OF assms(1), of "txt" topic "position an"] by auto
  then show ?thesis using k extractKeyPhrases_no_sentence[of "txt" "this" topic "position an"] by simp
qed

lemma topicStep_undefined:
  assumes "coreTopics this = None"
    and "topicStep this section sourceUrl tp positions = Inr positions'"
  shows "positions' = positions"
proof -
  from topicStep_Inr[OF assms(2)] show ?thesis
  proof
    assume "positions' = positions" then show ?thesis .
  next
    assume "\<exists>an summary.
        analyzePosition this (sec_text section) (canonical_name tp) = Inr an \<and>
        confidence an > 2/10 \<and> position an \<noteq> ''neutral'' \<and>
        extractPositionSummary this (sec_text section) tp (Some an) = Inr summary \<and>
        length summary > 20 \<and>
        positions' = positions @ [buildPosition section sourceUrl tp an summary]"
    then obtain an summary where
      a: "analyzePosition this (sec_text section) (canonical_name tp) = Inr an" and
      s: "extractPositionSummary this (sec_text section) tp (Some an) = Inr summary" and
      l: "length summary > 20" by blast
    from analyzePosition_undefined_Inr[OF assms(1) a]
    have "extractPositionSummary this (sec_text section) tp (Some an) = Inr ''.''"
      using extractPositionSummary_no_sentence by blast
    with s l show ?thesis by auto
  qed
qed

lemma raiseConfidence_set:
  "t \<in> set (raiseConfidence i c ts) \<Longrightarrow> t \<in> set ts \<or> topic_confidence t = c"
  by (induction ts) (auto split: if_splits)

lemma identifyStep_confidence:
  assumes "\<forall>t\<in>set topics. \<exists>a\<in>A. topic_confidence t = alias_confidence_score a"
    and "snd row \<in> A"
  shows "\<forall>t\<in>set (identifyStep lowerText topics row).
           \<exists>a\<in>A. topic_confidence t = alias_confidence_score a"
  using assms
  by (auto simp: identifyStep_def Let_def split: option.splits if_splits
           dest!: raiseConfidence_set)

lemma foldl_identifyStep_confidence:
  assumes "\<forall>t\<in>set topics. \<exists>a\<in>A. topic_confidence t = alias_confidence_score a"
    and "snd ` set rows \<subseteq> A"
  shows "\<forall>t\<in>set (foldl (identifyStep lowerText) topics rows).
           \<exists>a\<in>A. topic_confidence t = alias_confidence_score a"
  using assms
proof (induction rows arbitrary: topics)
  case Nil
  then show ?case by simp
next
  case (Cons r rows)
  have "\<forall>t\<in>set (identifyStep lowerText topics r).
           \<exists>a\<in>A. topic_confidence t = alias_confidence_score a"
    using identifyStep_confidence[OF Cons.prems(1), of r lowerText] Cons.prems(2) by simp
  then show ?case using Cons.IH Cons.prems(2) by simp
qed

lemma topicAliasRows_snd: "snd ` set (topicAliasRows d) \<subseteq> set (topic_aliases d)"
  by (auto simp: topicAliasRows_def)

lemma identifyTopics_confidence:
  "t \<in> set (identifyTopics this txt) \<Longrightarrow>
   \<exists>a\<in>set (topic_aliases (db this)). topic_confidence t = alias_confidence_score a"
  using foldl_identifyStep_confidence[of "[]" "set (topic_aliases (db this))"
          "topicAliasRows (db this)" "toLowerCase txt"] topicAliasRows_snd
  by (simp add: identifyTopics_def)

lemma sectionTopics_confidence:
  "t \<in> set (sectionTopics this section hintTopic) \<Longrightarrow>
   topic_confidence t = 9/10 \<or>
   (\<exists>a\<in>set (topic_aliases (db this)). topic_confidence t = alias_confidence_score a)"
  by (auto simp: sectionTopics_def Let_def split: option.splits if_splits
           dest: identifyTopics_confidence)

lemma decidePosition_gate:
  "decidePosition s p k = (pos, conf) \<Longrightarrow>
   (conf > 2/10 \<and> pos \<noteq> ''neutral'') = (s > 0 \<or> p > 0)"
  by (auto simp: decidePosition_def min_def split: if_splits)

lemma sectionStep_undefined:
  assumes "coreTopics this = None"
    and "sectionStep this sourceUrl hintTopic section positions = Inr positions'"
  shows "positions' = positions"
  using assms(2) unfolding sectionStep_def
  by (rule forEachE_invariant[where P = "\<lambda>ps. ps = positions"])
     (use topicStep_undefined[OF assms(1)] in auto)

lemma extractPolicyPositions_undefined:
  assumes "coreTopics this = None"
    and "extractPolicyPositions this pg sourceUrl hintTopic = Inr positions"
  shows "positions = []"
  using assms(2) unfolding extractPolicyPositions_def
  by (rule forEachE_invariant[where P = "\<lambda>ps. ps = []"])
     (use sectionStep_undefined[OF assms(1)] in auto)

lemma sectionStep_Inr:
  assumes "sectionStep this sourceUrl hintTopic section positions = Inr positions'"
    and "p \<in> set positions'"
  shows "p \<in> set positions \<or>
     (\<exists>tp\<in>set (sectionTopics this section hintTopic). \<exists>an summary.
        analyzePosition this (sec_text section) (canonical_name tp) = Inr an \<and>
        confidence an > 2/10 \<and> position an \<noteq> ''neutral'' \<and>
        extractPositionSummary this (sec_text section) tp (Some an) = Inr summary \<and>
        p = buildPosition section sourceUrl tp an summary)"
proof -
  let ?Q = "\<lambda>q. q \<in> set positions \<or>
     (\<exists>tp\<in>set (sectionTopics this section hintTopic). \<exists>an summary.
        analyzePosition this (sec_text section) (canonical_name tp) = Inr an \<and>
        confidence an > 2/10 \<and> position an \<noteq> ''neutral'' \<and>
        extractPositionSummary this (sec_text section) tp (Some an) = Inr summary \<and>
        q = buildPosition section sourceUrl tp an summary)"
  have "\<forall>q\<in>set positions'. ?Q q"
    using assms(1) unfolding sectionStep_def
  proof (rule forEachE_invariant[where P = "\<lambda>ps. \<forall>q\<in>set ps. ?Q q"])
    show "\<forall>q\<in>set positions. ?Q q" by simp
  next
    fix tp a b
    assume tp: "tp \<in> set (sectionTopics this section hintTopic)"
      and a: "\<forall>q\<in>set a. ?Q q"
      and s: "topicStep this section sourceUrl tp a = Inr b"
    from topicStep_Inr[OF s] show "\<forall>q\<in>set b. ?Q q"
    proof
      assume "b = a" with a show ?thesis by simp
    next
      assume "\<exists>an summary.
        analyzePosition this (sec_text section) (canonical_name tp) = Inr an \<and>
        confidence an > 2/10 \<and> position an \<noteq> ''neutral'' \<and>
        extractPositionSummary this (sec_text section) tp (Some an) = Inr summary \<and>
        length summary > 20 \<and>
        b = a @ [buildPosition section sourceUrl tp an summary]"
      then obtain an summary where
        "analyzePosition this (sec_text section) (canonical_name tp) = Inr an"
        "confidence an > 2/10" "position an \<noteq> ''neutral''"
        "extractPositionSummary this (sec_text section) tp (Some an) = Inr summary"
        "b = a @ [buildPosition section sourceUrl tp an summary]" by blast
      with a tp show ?thesis by auto
    qed
  qed
  with assms(2) show ?thesis by blast
qed

lemma extractPolicyPositions_Inr:
  assumes "extractPolicyPositions this pg sourceUrl hintTopic = Inr positions"
    and "p \<in> set positions"
  shows "\<exists>section\<in>set (findContentSections pg).
         \<exists>tp\<in>set (sectionTopics this section hintTopic). \<exists>an summary.
        analyzePosition this (sec_text section) (canonical_name tp) = Inr an \<and>
        confidence an > 2/10 \<and> position an \<noteq> ''neutral'' \<and>
        extractPositionSummary this (sec_text section) tp (Some an) = Inr summary \<and>
        p = buildPosition section sourceUrl tp an summary"
proof -
  let ?Q = "\<lambda>q. \<exists>section\<in>set (findContentSections pg).
         \<exists>tp\<in>set (sectionTopics this section hintTopic). \<exists>an summary.
        analyzePosition this (sec_text section) (canonical_name tp) = Inr an \<and>
        confidence an > 2/10 \<and> position an \<noteq> ''neutral'' \<and>
        extractPositionSummary this (sec_text section) tp (Some an) = Inr summary \<and>
        q = buildPosition section sourceUrl tp an summary"
  have "\<forall>q\<in>set positions. ?Q q"
    using assms(1) unfolding extractPolicyPositions_def
  proof (rule forEachE_invariant[where P = "\<lambda>ps. \<forall>q\<in>set ps. ?Q q"])
    show "\<forall>q\<in>set []. ?Q q" by simp
  next
    fix sc a b
    assume sec: "sc \<in> set (findContentSections pg)"
      and a: "\<forall>q\<in>set a. ?Q q"
      and s: "sectionStep this sourceUrl hintTopic sc a = Inr b"
    show "\<forall>q\<in>set b. ?Q q"
    proof
      fix q assume qb: "q \<in> set b"
      from sectionStep_Inr[OF s qb] a sec show "?Q q" by blast
    qed
  qed
  with assms(2) show ?thesis by blast
qed

text \<open>
  Claim C4. A position is emitted for a section and a topic only when the analysis of the
  section for that topic returned a stance other than \<^verbatim>\<open>neutral\<close> and
  \<open>min topicConfidence stanceConfidence > 0.2\<close>; the text then has at least one hit of the
  support or the oppose lexicon (generic or of the topic), so a text without hits emits
  nothing, whatever topics matched and whatever the hint. The test in the source is on
  the stance confidence alone; the topic confidence is an alias weight or the 0.9 of a
  hint. The statement holds for the crawler as constructed (\<^verbatim>\<open>coreTopics\<close> undefined,
  where no position is emitted at all) and, with \<^verbatim>\<open>coreTopics\<close> supplied, for every
  alias table whose weights exceed 0.2, as the seeded 0.8 and 1.0 do.
\<close>

theorem extractPolicyPositions_gate:
  assumes "coreTopics this = None \<or>
           (\<forall>a\<in>set (topic_aliases (db this)). 2/10 < alias_confidence_score a)"
    and "extractPolicyPositions this pg sourceUrl hintTopic = Inr positions"
    and "p \<in> set positions"
  shows "\<exists>section\<in>set (findContentSections pg).
         \<exists>tp\<in>set (sectionTopics this section hintTopic). \<exists>an summary.
           analyzePosition this (sec_text section) (canonical_name tp) = Inr an \<and>
           extractPositionSummary this (sec_text section) tp (Some an) = Inr summary \<and>
           p = buildPosition section sourceUrl tp an summary \<and>
           min (topic_confidence tp) (confidence an) > 2/10 \<and>
           position an \<noteq> ''neutral'' \<and>
           (supportScoreOf (sec_text section) (canonical_name tp) > 0 \<or>
            opposeScoreOf (sec_text section) (canonical_name tp) > 0)"
proof -
  have w: "\<forall>a\<in>set (topic_aliases (db this)). 2/10 < alias_confidence_score a"
  proof (cases "coreTopics this")
    case None
    from extractPolicyPositions_undefined[OF None assms(2)] assms(3) show ?thesis by simp
  next
    case (Some m)
    with assms(1) show ?thesis by simp
  qed
  from extractPolicyPositions_Inr[OF assms(2,3)]
  obtain sc tp an summary where
    sec: "sc \<in> set (findContentSections pg)" and
    tp: "tp \<in> set (sectionTopics this sc hintTopic)" and
    an: "analyzePosition this (sec_text sc) (canonical_name tp) = Inr an" and
    c: "confidence an > 2/10" and n: "position an \<noteq> ''neutral''" and
    s: "extractPositionSummary this (sec_text sc) tp (Some an) = Inr summary" and
    p: "p = buildPosition sc sourceUrl tp an summary" by blast
  have tc: "topic_confidence tp > 2/10"
    using sectionTopics_confidence[OF tp] w by auto
  have d: "(position an, confidence an) =
      decidePosition (supportScoreOf (sec_text sc) (canonical_name tp))
        (opposeScoreOf (sec_text sc) (canonical_name tp)) (strengthScoreOf (sec_text sc))"
    using analyzePosition_Inr[OF an] by simp
  have h: "supportScoreOf (sec_text sc) (canonical_name tp) > 0 \<or>
            opposeScoreOf (sec_text sc) (canonical_name tp) > 0"
    using decidePosition_gate[OF d[symmetric]] c n by simp
  show ?thesis using sec tp an s p tc c n h by (intro bexI[of _ sc] bexI[of _ tp] exI[of _ an] exI[of _ summary]) auto
qed

section \<open>Properties of the fetcher\<close>

lemma fetch_status_200:
  assumes "URL u \<noteq> None"
  shows "fetchWebsiteContent URL this (Response 200 statusMessage location body # evs) u retryCount =
     \<lparr>outcome = Some (Inr body), requested = [u], delays = []\<rparr>"
  using assms by (auto split: option.splits)

lemma fetch_status_other:
  assumes "URL u \<noteq> None" and "statusCode \<noteq> 200"
    and "\<not> (300 \<le> statusCode \<and> statusCode < 400 \<and> orEmpty location \<noteq> [])"
  shows "fetchWebsiteContent URL this (Response statusCode statusMessage location body # evs) u
           retryCount =
     \<lparr>outcome = Some (Inl (httpError statusCode statusMessage)), requested = [u], delays = []\<rparr>"
  using assms by (auto split: option.splits)

lemma fetch_redirect:
  assumes "URL u \<noteq> None" and "300 \<le> statusCode" and "statusCode < 400"
    and "orEmpty location \<noteq> []"
  shows "fetchWebsiteContent URL this (Response statusCode statusMessage location body # evs) u
           retryCount =
     (fetchWebsiteContent URL this evs (orEmpty location) retryCount)
       \<lparr>requested := u # requested
           (fetchWebsiteContent URL this evs (orEmpty location) retryCount)\<rparr>"
  using assms by (auto simp: Let_def split: option.splits)





lemma simpleURL_example: "simpleURL ''https://x.gov/'' \<noteq> None"
  by code_simp

text \<open>
  Claim C7, amended. For a URL the parser accepts: a response with status 200 resolves
  the fetch with the body; a response with a 3xx status and a non-empty \<^verbatim>\<open>Location\<close>
  is followed, the fetch settling as the fetch of the target does; every other response,
  the 2xx statuses other than 200 among them, rejects at once with the error
  \<^verbatim>\<open>HTTP <status>: <message>\<close>, after one request, with no timer set, whatever the
  retry count and whatever the network would answer next.
\<close>

theorem fetch_response:
  assumes "URL u \<noteq> None"
  shows "(statusCode = 200 \<longrightarrow>
            fetchWebsiteContent URL this
              (Response statusCode statusMessage location body # evs) u retryCount =
            \<lparr>outcome = Some (Inr body), requested = [u], delays = []\<rparr>) \<and>
         (statusCode \<noteq> 200 \<and>
          \<not> (300 \<le> statusCode \<and> statusCode < 400 \<and> orEmpty location \<noteq> []) \<longrightarrow>
            fetchWebsiteContent URL this
              (Response statusCode statusMessage location body # evs) u retryCount =
            \<lparr>outcome = Some (Inl (Error (''HTTP '' @ showNat statusCode @ '': '' @ statusMessage))),
             requested = [u], delays = []\<rparr>) \<and>
         (300 \<le> statusCode \<and> statusCode < 400 \<and> orEmpty location \<noteq> [] \<longrightarrow>
            outcome (fetchWebsiteContent URL this
              (Response statusCode statusMessage location body # evs) u retryCount) =
            outcome (fetchWebsiteContent URL this evs (orEmpty location) retryCount))"
proof (intro conjI impI)
  assume "statusCode = 200"
  then show "fetchWebsiteContent URL this
              (Response statusCode statusMessage location body # evs) u retryCount =
            \<lparr>outcome = Some (Inr body), requested = [u], delays = []\<rparr>"
    using fetch_status_200[where URL=URL and u=u, OF assms] by simp
next
  assume "statusCode \<noteq> 200 \<and>
          \<not> (300 \<le> statusCode \<and> statusCode < 400 \<and> orEmpty location \<noteq> [])"
  then show "fetchWebsiteContent URL this
              (Response statusCode statusMessage location body # evs) u retryCount =
            \<lparr>outcome = Some (Inl (Error (''HTTP '' @ showNat statusCode @ '': '' @ statusMessage))),
             requested = [u], delays = []\<rparr>"
    using fetch_status_other[where URL=URL and u=u and statusCode=statusCode and location=location, OF assms]
    by (simp add: httpError_def del: fetchWebsiteContent.simps)
next
  assume "300 \<le> statusCode \<and> statusCode < 400 \<and> orEmpty location \<noteq> []"
  then show "outcome (fetchWebsiteContent URL this
              (Response statusCode statusMessage location body # evs) u retryCount) =
            outcome (fetchWebsiteContent URL this evs (orEmpty location) retryCount)"
    using fetch_redirect[where URL=URL and u=u and statusCode=statusCode and location=location, OF assms]
    by (simp del: fetchWebsiteContent.simps)
qed

theorem fetch_response_witness:
  "simpleURL ''https://x.gov/'' \<noteq> None \<and>
   fetchWebsiteContent simpleURL (constructor emptyDb)
     [Response 200 ''OK'' None ''<html>ok</html>''] ''https://x.gov/'' 0 =
     \<lparr>outcome = Some (Inr ''<html>ok</html>''), requested = [''https://x.gov/''], delays = []\<rparr> \<and>
   fetchWebsiteContent simpleURL (constructor emptyDb)
     [Response 404 ''Not Found'' None ''gone'', Response 200 ''OK'' None ''late'']
     ''https://x.gov/'' 0 =
     \<lparr>outcome = Some (Inl (Error (''HTTP '' @ showNat 404 @ '': '' @ ''Not Found''))),
      requested = [''https://x.gov/''], delays = []\<rparr> \<and>
   outcome (fetchWebsiteContent simpleURL (constructor emptyDb)
     [Response 301 ''Moved'' (Some ''https://x.gov/home'') [], Response 200 ''OK'' None ''home'']
     ''https://x.gov/'' 0) =
   outcome (fetchWebsiteContent simpleURL (constructor emptyDb)
     [Response 200 ''OK'' None ''home''] ''https://x.gov/home'' 0)"
proof -
  note t = fetch_response[where URL=simpleURL and u="''https://x.gov/''"
             and this="constructor emptyDb", OF simpleURL_example]
  have a: "fetchWebsiteContent simpleURL (constructor emptyDb)
     [Response 200 ''OK'' None ''<html>ok</html>''] ''https://x.gov/'' 0 =
     \<lparr>outcome = Some (Inr ''<html>ok</html>''), requested = [''https://x.gov/''], delays = []\<rparr>"
    using t[where statusCode=200 and statusMessage="''OK''" and location=None
               and body="''<html>ok</html>''" and evs="[]" and retryCount=0] by simp
  have b: "fetchWebsiteContent simpleURL (constructor emptyDb)
     [Response 404 ''Not Found'' None ''gone'', Response 200 ''OK'' None ''late'']
     ''https://x.gov/'' 0 =
     \<lparr>outcome = Some (Inl (Error (''HTTP '' @ showNat 404 @ '': '' @ ''Not Found''))),
      requested = [''https://x.gov/''], delays = []\<rparr>"
    using t[where statusCode=404 and statusMessage="''Not Found''" and location=None
               and body="''gone''" and evs="[Response 200 ''OK'' None ''late'']"
               and retryCount=0]
    by (simp add: orEmpty_def del: fetchWebsiteContent.simps)
  have c: "outcome (fetchWebsiteContent simpleURL (constructor emptyDb)
     [Response 301 ''Moved'' (Some ''https://x.gov/home'') [], Response 200 ''OK'' None ''home'']
     ''https://x.gov/'' 0) =
   outcome (fetchWebsiteContent simpleURL (constructor emptyDb)
     [Response 200 ''OK'' None ''home''] ''https://x.gov/home'' 0)"
    using t[where statusCode=301 and statusMessage="''Moved''"
               and location="Some ''https://x.gov/home''" and body="[]"
               and evs="[Response 200 ''OK'' None ''home'']" and retryCount=0]
    by (simp add: orEmpty_def del: fetchWebsiteContent.simps)
  from simpleURL_example a b c show ?thesis by blast
qed

text \<open>The claim as stated fails at a 2xx status other than 200: the response
  \<^verbatim>\<open>201 Created\<close> with a body rejects the fetch.\<close>

theorem fetch_2xx_counterexample:
  "outcome (fetchWebsiteContent simpleURL (constructor emptyDb)
      [Response 201 ''Created'' None ''<html>ok</html>''] ''https://x.gov/'' 0) =
   Some (Inl (Error ''HTTP 201: Created''))"
  by code_simp





section \<open>Properties of the position store\<close>










section \<open>Properties of the scheduler\<close>











end
